theory Spec2Isabelle
  imports Complex_Main
begin

text \<open>
  The application is one React component (\<^verbatim>\<open>App\<close> in \<^verbatim>\<open>src/App.tsx\<close>) and a
  service module (\<^verbatim>\<open>src/services/geminiService.ts\<close>). \<^verbatim>\<open>src/App.tsx\<close> holds two
  versions of the component; they agree on everything modelled here, except that only the
  first renders the chat panel and only the second has \<^verbatim>\<open>clearHistory\<close>. The model
  passes the component state explicitly and takes what the environment decides (file
  reader, service replies, identifiers, clock) as inputs.
\<close>

section \<open>Run-time values\<close>

text \<open>
  The analysis result and the persisted history enter the program through
  \<^verbatim>\<open>JSON.parse\<close> followed by an unchecked TypeScript cast
  (\<^verbatim>\<open>JSON.parse(text) as AnalysisResult\<close>,
  \<^verbatim>\<open>setRecentFiles(JSON.parse(saved))\<close>), so at run time they are arbitrary
  JavaScript values. They are modelled as such. JSON numbers are rationals; the program
  never computes with them.
\<close>

datatype jsval =
    Undefined
  | JNull
  | JBool bool
  | JNum rat
  | JStr string
  | JArr "jsval list"
  | JObj "(string \<times> jsval) list"

text \<open>Exceptions thrown by the program and by the platform functions it calls.\<close>

datatype exn =
    TypeError
  | SyntaxError
  | ApiKeyNotFound
  | NoResponseFromAI
  | ServiceFailure

text \<open>JavaScript truthiness, as used by \<^verbatim>\<open>!result\<close>.\<close>

fun truthy :: "jsval \<Rightarrow> bool" where
  "truthy Undefined = False"
| "truthy JNull = False"
| "truthy (JBool b) = b"
| "truthy (JNum n) = (n \<noteq> 0)"
| "truthy (JStr s) = (s \<noteq> [])"
| "truthy (JArr xs) = True"
| "truthy (JObj kvs) = True"

text \<open>
  Property read \<^verbatim>\<open>v.k\<close> for the property names this program reads
  (\<^verbatim>\<open>id\<close>, \<^verbatim>\<open>summary\<close>, \<^verbatim>\<open>stats\<close>, \<^verbatim>\<open>markdownContent\<close>), none of which is
  defined by a built-in prototype: reading from \<^verbatim>\<open>null\<close> or \<^verbatim>\<open>undefined\<close>
  throws, an object yields the stored value or \<^verbatim>\<open>undefined\<close>, every other value
  yields \<^verbatim>\<open>undefined\<close>.
\<close>

fun get_prop :: "jsval \<Rightarrow> string \<Rightarrow> exn + jsval" where
  "get_prop Undefined k = Inl TypeError"
| "get_prop JNull k = Inl TypeError"
| "get_prop (JObj kvs) k = Inr (case map_of kvs k of None \<Rightarrow> Undefined | Some v \<Rightarrow> v)"
| "get_prop v k = Inr Undefined"

section \<open>JSON texts\<close>

text \<open>
  \<^verbatim>\<open>JSON.parse\<close> and \<^verbatim>\<open>JSON.stringify\<close> are built-ins of the platform. A text
  handed to \<^verbatim>\<open>JSON.parse\<close> is modelled by what the built-in does with it: either
  it is not a JSON document (\<open>NotJson\<close>, carrying the characters) and the built-in
  throws \<^verbatim>\<open>SyntaxError\<close>, or it is a JSON document (\<open>JsonText\<close>) and the
  built-in returns the value it denotes. A JSON document has at least one character.
\<close>

datatype jstext = NotJson string | JsonText jsval

fun JSON_parse :: "jstext \<Rightarrow> exn + jsval" where
  "JSON_parse (NotJson s) = Inl SyntaxError"
| "JSON_parse (JsonText v) = Inr v"

text \<open>Truthiness of a string: only the empty string is falsy.\<close>

fun nonempty_text :: "jstext \<Rightarrow> bool" where
  "nonempty_text (NotJson s) = (s \<noteq> [])"
| "nonempty_text (JsonText v) = True"

text \<open>
  The value denoted by the text \<^verbatim>\<open>JSON.stringify\<close> writes: object properties whose
  value is \<^verbatim>\<open>undefined\<close> are left out, \<^verbatim>\<open>undefined\<close> array elements are written
  as \<^verbatim>\<open>null\<close>.
\<close>

fun jsonify :: "jsval \<Rightarrow> jsval" where
  "jsonify (JArr xs) = JArr (map (\<lambda>x. if x = Undefined then JNull else jsonify x) xs)"
| "jsonify (JObj kvs) =
     JObj (map (\<lambda>kv. (fst kv, jsonify (snd kv))) (filter (\<lambda>kv. snd kv \<noteq> Undefined) kvs))"
| "jsonify v = v"

text \<open>
  \<^verbatim>\<open>JSON.stringify(undefined)\<close> is \<^verbatim>\<open>undefined\<close>, not a string; \<^verbatim>\<open>setItem\<close>
  then stores the characters \<^verbatim>\<open>undefined\<close>.
\<close>

fun JSON_stringify :: "jsval \<Rightarrow> jstext option" where
  "JSON_stringify Undefined = None"
| "JSON_stringify v = Some (JsonText (jsonify v))"

type_synonym storage = "string \<rightharpoonup> jstext"

definition setItem :: "string \<Rightarrow> jstext option \<Rightarrow> storage \<Rightarrow> storage" where
  "setItem k t st = st(k \<mapsto> (case t of None \<Rightarrow> NotJson ''undefined'' | Some x \<Rightarrow> x))"

section \<open>Application state\<close>

datatype AppState = IDLE | UPLOADING | PROCESSING | ANALYZING | COMPLETE | ERROR

datatype role = User | Model

record ChatMessage =
  cm_id :: string
  cm_role :: role
  cm_text :: string
  cm_timestamp :: nat

record FileData =
  fd_id :: string
  fd_name :: string
  fd_size :: nat
  fd_type :: string
  fd_base64 :: "string option"
  fd_uploadDate :: nat

text \<open>The browser's \<^verbatim>\<open>File\<close> object handed to \<^verbatim>\<open>processFile\<close>.\<close>

record File =
  file_name :: string
  file_size :: nat
  file_type :: string

text \<open>Requests issued to the external generative service.\<close>

datatype request =
    AnalyzeRequest "string option" string
  | ChatRequest jsval "(role \<times> string) list" string

text \<open>
  The state of the \<^verbatim>\<open>App\<close> component (the \<^verbatim>\<open>useState\<close> cells that carry data;
  tabs, progress steps and menus are presentation), together with the browser's
  \<^verbatim>\<open>localStorage\<close> and the log of requests sent to the external service.
\<close>

record app =
  appState :: AppState
  fileData :: "FileData option"
  result :: jsval
  error :: "string option"
  chatHistory :: "ChatMessage list"
  chatInput :: string
  isChatLoading :: bool
  recentFiles :: jsval
  localStorage :: storage
  sent :: "request list"

definition init_app :: "storage \<Rightarrow> app" where
  "init_app st =
     \<lparr> appState = IDLE, fileData = None, result = JNull, error = None,
       chatHistory = [], chatInput = [], isChatLoading = False,
       recentFiles = JArr [], localStorage = st, sent = [] \<rparr>"

section \<open>History\<close>

definition history_key :: string where
  "history_key = ''smartpdf_history''"

text \<open>
  The mount effect: \<^verbatim>\<open>const saved = localStorage.getItem(...); if (saved)
  setRecentFiles(JSON.parse(saved))\<close>.
\<close>

definition loadHistory :: "app \<Rightarrow> exn + app" where
  "loadHistory s =
     (case localStorage s history_key of
        None \<Rightarrow> Inr s
      | Some saved \<Rightarrow>
          if \<not> nonempty_text saved then Inr s
          else (case JSON_parse saved of
                  Inl e \<Rightarrow> Inl e
                | Inr v \<Rightarrow> Inr (s\<lparr>recentFiles := v\<rparr>)))"

text \<open>\<^verbatim>\<open>recentFiles.filter(i => i.id !== file.id)\<close> on the elements of an array.\<close>

fun filter_other_ids :: "string \<Rightarrow> jsval list \<Rightarrow> exn + jsval list" where
  "filter_other_ids fid [] = Inr []"
| "filter_other_ids fid (i # is) =
     (case get_prop i ''id'' of
        Inl e \<Rightarrow> Inl e
      | Inr v \<Rightarrow>
          (case filter_other_ids fid is of
             Inl e \<Rightarrow> Inl e
           | Inr r \<Rightarrow> Inr (if v \<noteq> JStr fid then i # r else r)))"

definition newItem :: "FileData \<Rightarrow> nat \<Rightarrow> jsval \<Rightarrow> jsval \<Rightarrow> jsval" where
  "newItem file now summary stats =
     JObj [(''id'', JStr (fd_id file)), (''fileName'', JStr (fd_name file)),
           (''date'', JNum (of_nat now)), (''summary'', summary), (''stats'', stats)]"

text \<open>\<open>now\<close> is the value of \<^verbatim>\<open>Date.now()\<close>.\<close>

definition addToHistory :: "nat \<Rightarrow> FileData \<Rightarrow> jsval \<Rightarrow> app \<Rightarrow> exn + app" where
  "addToHistory now file analysis s =
     (case get_prop analysis ''summary'' of
        Inl e \<Rightarrow> Inl e
      | Inr summary \<Rightarrow>
     (case get_prop analysis ''stats'' of
        Inl e \<Rightarrow> Inl e
      | Inr stats \<Rightarrow>
     (case recentFiles s of
        JArr items \<Rightarrow>
          (case filter_other_ids (fd_id file) items of
             Inl e \<Rightarrow> Inl e
           | Inr others \<Rightarrow>
               let updated = JArr (take 10 (newItem file now summary stats # others))
               in Inr (s\<lparr> recentFiles := updated,
                         localStorage :=
                           setItem history_key (JSON_stringify updated) (localStorage s) \<rparr>))
      | _ \<Rightarrow> Inl TypeError)))"


text \<open>A sequence of record operations, each with its time stamp; an exception ends it.\<close>

fun record_all :: "(nat \<times> FileData \<times> jsval) list \<Rightarrow> app \<Rightarrow> exn + app" where
  "record_all [] s = Inr s"
| "record_all (r # rs) s =
     (case addToHistory (fst r) (fst (snd r)) (snd (snd r)) s of
        Inl e \<Rightarrow> Inl e
      | Inr s' \<Rightarrow> record_all rs s')"

text \<open>
  Values a property can be read from, and ledgers that are arrays of such values (as
  every ledger written by \<^verbatim>\<open>addToHistory\<close> is).
\<close>

definition present :: "jsval \<Rightarrow> bool" where
  "present v = (v \<noteq> Undefined \<and> v \<noteq> JNull)"

fun ledger_ok :: "jsval \<Rightarrow> bool" where
  "ledger_ok (JArr items) = list_all present items"
| "ledger_ok v = False"

text \<open>The entries of a ledger that is an array.\<close>

fun entries :: "jsval \<Rightarrow> jsval list" where
  "entries (JArr items) = items"
| "entries v = []"

text \<open>Only the second version of the component has \<^verbatim>\<open>clearHistory\<close>.\<close>

definition clearHistory :: "app \<Rightarrow> app" where
  "clearHistory s = s\<lparr> recentFiles := JArr [], localStorage := (localStorage s)(history_key := None) \<rparr>"

section \<open>The analysis service\<close>

text \<open>\<^verbatim>\<open>getClient\<close>: \<^verbatim>\<open>if (!apiKey) throw new Error("API Key not found")\<close>.\<close>

definition getClient :: "string option \<Rightarrow> exn + unit" where
  "getClient key =
     (case key of
        None \<Rightarrow> Inl ApiKeyNotFound
      | Some k \<Rightarrow> if k = [] then Inl ApiKeyNotFound else Inr ())"

text \<open>
  \<open>response\<close> is what \<^verbatim>\<open>ai.models.generateContent\<close> does: it rejects
  (\<open>Inl\<close>) or resolves with a response whose \<^verbatim>\<open>text\<close> may be undefined.
  The function returns the requests it issued and its outcome. The prompt and the
  response schema sent with the request are constants and not part of the request value.
\<close>

definition analyzeAndConvertPDF ::
  "string option \<Rightarrow> (exn + jstext option) \<Rightarrow> string option \<Rightarrow> string
     \<Rightarrow> request list \<times> (exn + jsval)" where
  "analyzeAndConvertPDF key response base64Data mimeType =
     (case getClient key of
        Inl e \<Rightarrow> ([], Inl e)
      | Inr _ \<Rightarrow>
          ([AnalyzeRequest base64Data mimeType],
           (case response of
              Inl e \<Rightarrow> Inl e
            | Inr None \<Rightarrow> Inl NoResponseFromAI
            | Inr (Some text) \<Rightarrow>
                if \<not> nonempty_text text then Inl NoResponseFromAI
                else JSON_parse text)))"

section \<open>The pipeline\<close>

text \<open>\<^verbatim>\<open>s.split(c)\<close> for a one-character separator, and \<^verbatim>\<open>xs[n]\<close>.\<close>

fun split_on :: "char \<Rightarrow> string \<Rightarrow> string list" where
  "split_on c [] = [[]]"
| "split_on c (x # xs) =
     (if x = c then [] # split_on c xs
      else (case split_on c xs of
              [] \<Rightarrow> [[x]]
            | p # ps \<Rightarrow> (x # p) # ps))"

definition nth_opt :: "'a list \<Rightarrow> nat \<Rightarrow> 'a option" where
  "nth_opt xs n = (if n < length xs then Some (xs ! n) else None)"

text \<open>
  What the \<^verbatim>\<open>FileReader\<close> does with the file: constructing or starting it throws
  synchronously, the read fails (no \<^verbatim>\<open>onload\<close>, and the program installs no
  \<^verbatim>\<open>onerror\<close>), or \<^verbatim>\<open>onload\<close> fires with the data URL.
\<close>

datatype reader_outcome = ReaderThrows | ReaderFails | ReaderLoaded string

text \<open>The environment of one \<^verbatim>\<open>processFile\<close> run.\<close>

record run_env =
  reader :: reader_outcome
  uuid :: string
  uploadNow :: nat
  historyNow :: nat
  apiKey :: "string option"
  response :: "exn + jstext option"

text \<open>
  The tail of \<^verbatim>\<open>reader.onload\<close> after the analysis has returned:
  \<^verbatim>\<open>setResult(analysis); setAppState(COMPLETE); addToHistory(newFile, analysis)\<close>.
  An exception in \<^verbatim>\<open>addToHistory\<close> leaves the two updates before it in place.
\<close>

definition complete_run :: "nat \<Rightarrow> FileData \<Rightarrow> jsval \<Rightarrow> app \<Rightarrow> app" where
  "complete_run now newFile analysis s =
     (let s' = s\<lparr> result := analysis, appState := COMPLETE \<rparr>
      in case addToHistory now newFile analysis s' of
           Inl e \<Rightarrow> s'
         | Inr s'' \<Rightarrow> s'')"

text \<open>
  \<^verbatim>\<open>reader.onload\<close>. The result is the list of states after each synchronous segment:
  up to the \<^verbatim>\<open>await\<close> of the analysis, and, when the analysis returns, after it.
  When the analysis throws, the exception leaves the callback (the \<^verbatim>\<open>try\<close> of
  \<^verbatim>\<open>processFile\<close> has long been left) and nothing more happens.
\<close>

definition reader_onload :: "run_env \<Rightarrow> File \<Rightarrow> string \<Rightarrow> app \<Rightarrow> app list" where
  "reader_onload env file url s =
     (let base64 = nth_opt (split_on CHR '','' url) 1;
          newFile = \<lparr> fd_id = uuid env, fd_name = file_name file, fd_size = file_size file,
                      fd_type = file_type file, fd_base64 = base64,
                      fd_uploadDate = uploadNow env \<rparr>;
          call = analyzeAndConvertPDF (apiKey env) (response env) base64 (file_type file);
          s2 = s\<lparr> fileData := Some newFile, appState := PROCESSING,
                   sent := sent s @ fst call \<rparr>
      in case snd call of
           Inl e \<Rightarrow> [s2]
         | Inr analysis \<Rightarrow> [s2, complete_run (historyNow env) newFile analysis s2])"

text \<open>
  \<^verbatim>\<open>processFile\<close>: the list of states after each synchronous segment of the run
  (state updates queued in one segment are applied together when it ends).
\<close>

definition processFile :: "run_env \<Rightarrow> File \<Rightarrow> app \<Rightarrow> app list" where
  "processFile env file s =
     (if file_size file > 20 * 1024 * 1024
      then [s\<lparr> error := Some ''File size exceeds 20MB limit.'' \<rparr>]
      else
        let s1 = s\<lparr> appState := UPLOADING, error := None, result := JNull,
                      chatHistory := [] \<rparr>
        in case reader env of
             ReaderThrows \<Rightarrow>
               [s1\<lparr> error := Some ''Failed to process file. Please try a different PDF.'',
                     appState := ERROR \<rparr>]
           | ReaderFails \<Rightarrow> [s1]
           | ReaderLoaded url \<Rightarrow> s1 # reader_onload env file url s1)"

text \<open>The phases a run goes through, starting with the phase it was started in.\<close>

definition phases :: "app \<Rightarrow> app list \<Rightarrow> AppState list" where
  "phases s tr = map appState (s # tr)"

text \<open>
  The Clear button, shown while the phase is \<open>COMPLETE\<close>:
  \<^verbatim>\<open>setResult(null); setAppState(AppState.IDLE)\<close> (and presentation state).
\<close>

definition reset :: "app \<Rightarrow> app" where
  "reset s = s\<lparr> result := JNull, appState := IDLE \<rparr>"


section \<open>Chat\<close>

text \<open>
  \<^verbatim>\<open>!chatInput.trim()\<close>: the input consists of white space only. Characters are
  the code units below 256 here; of the white space \<^verbatim>\<open>trim\<close> removes, these are
  tab, line feed, vertical tab, form feed, carriage return, space and no-break space.
\<close>

definition is_space :: "char \<Rightarrow> bool" where
  "is_space c =
     (c \<in> set [CHR 0x09, CHR 0x0A, CHR 0x0B, CHR 0x0C, CHR 0x0D, CHR '' '', CHR 0xA0])"

definition blank :: "string \<Rightarrow> bool" where
  "blank s = list_all is_space s"

text \<open>
  \<^verbatim>\<open>documentContext.slice(0, 500000)\<close> on the run-time value of
  \<^verbatim>\<open>result.markdownContent\<close>: strings and arrays have \<^verbatim>\<open>slice\<close>, on anything
  else the call throws.
\<close>

fun slice_context :: "jsval \<Rightarrow> exn + jsval" where
  "slice_context (JStr s) = Inr (JStr (take 500000 s))"
| "slice_context (JArr xs) = Inr (JArr (take 500000 xs))"
| "slice_context v = Inl TypeError"

definition fallback_reply :: string where
  "fallback_reply = ''I couldn't generate a response.''"

text \<open>
  \<open>reply\<close> is what \<^verbatim>\<open>chatSession.sendMessage\<close> does: it rejects, or resolves with
  a response whose \<^verbatim>\<open>text\<close> may be undefined. The request carries the sliced
  document (the instruction text around it is constant), the prior turns and the message.
\<close>

definition chatWithDocument ::
  "string option \<Rightarrow> (exn + string option) \<Rightarrow> ChatMessage list \<Rightarrow> string \<Rightarrow> jsval
     \<Rightarrow> request list \<times> (exn + string)" where
  "chatWithDocument key reply history newMessage documentContext =
     (case getClient key of
        Inl e \<Rightarrow> ([], Inl e)
      | Inr _ \<Rightarrow>
          (case slice_context documentContext of
             Inl e \<Rightarrow> ([], Inl e)
           | Inr ctx \<Rightarrow>
               ([ChatRequest ctx (map (\<lambda>h. (cm_role h, cm_text h)) history) newMessage],
                (case reply of
                   Inl e \<Rightarrow> Inl e
                 | Inr None \<Rightarrow> Inr fallback_reply
                 | Inr (Some t) \<Rightarrow> Inr (if t = [] then fallback_reply else t)))))"

text \<open>The environment of one \<^verbatim>\<open>handleChat\<close> call.\<close>

record chat_env =
  userId :: string
  userNow :: nat
  modelId :: string
  modelNow :: nat
  chatKey :: "string option"
  chatReply :: "exn + string option"

text \<open>
  \<^verbatim>\<open>handleChat\<close> up to its \<^verbatim>\<open>await\<close>: the guard, the user's message, and the
  call of \<^verbatim>\<open>chatWithDocument\<close> with the history and input of the current render.
  \<open>None\<close> is the early \<^verbatim>\<open>return\<close>; otherwise the new state and the outcome the
  call will settle with.
\<close>

definition handleChat_begin :: "chat_env \<Rightarrow> app \<Rightarrow> (app \<times> (exn + string)) option" where
  "handleChat_begin env s =
     (if blank (chatInput s) \<or> \<not> truthy (result s) then None
      else
        let userMsg = \<lparr> cm_id = userId env, cm_role = User, cm_text = chatInput s,
                        cm_timestamp = userNow env \<rparr>;
            call = (case get_prop (result s) ''markdownContent'' of
                      Inl e \<Rightarrow> ([], Inl e)
                    | Inr ctx \<Rightarrow>
                        chatWithDocument (chatKey env) (chatReply env) (chatHistory s)
                          (chatInput s) ctx)
        in Some (s\<lparr> chatHistory := chatHistory s @ [userMsg], chatInput := [],
                     isChatLoading := True, sent := sent s @ fst call \<rparr>,
                 snd call))"

text \<open>\<^verbatim>\<open>handleChat\<close> after the \<^verbatim>\<open>await\<close>: the model's message, or the \<^verbatim>\<open>catch\<close>.\<close>

definition handleChat_settle :: "chat_env \<Rightarrow> (exn + string) \<Rightarrow> app \<Rightarrow> app" where
  "handleChat_settle env outcome s =
     (case outcome of
        Inr responseText \<Rightarrow>
          s\<lparr> chatHistory := chatHistory s @
                [\<lparr> cm_id = modelId env, cm_role = Model, cm_text = responseText,
                   cm_timestamp = modelNow env \<rparr>],
              isChatLoading := False \<rparr>
      | Inl e \<Rightarrow> s\<lparr> isChatLoading := False \<rparr>)"

text \<open>One call of \<^verbatim>\<open>handleChat\<close> run to its end: the states after each segment.\<close>

definition handleChat :: "chat_env \<Rightarrow> app \<Rightarrow> app list" where
  "handleChat env s =
     (case handleChat_begin env s of
        None \<Rightarrow> [s]
      | Some (s1, outcome) \<Rightarrow> [s1, handleChat_settle env outcome s1])"

text \<open>Typing a question (\<^verbatim>\<open>setChatInput\<close>) and submitting it, the call run to its end.\<close>

definition ask :: "string \<times> chat_env \<Rightarrow> app \<Rightarrow> app" where
  "ask qe s = last (handleChat (snd qe) (s\<lparr> chatInput := fst qe \<rparr>))"

fun asks :: "(string \<times> chat_env) list \<Rightarrow> app \<Rightarrow> app" where
  "asks [] s = s"
| "asks (qe # qes) s = asks qes (ask qe s)"

text \<open>
  The turns one call adds to the transcript, as role and text, for the active result
  \<open>res\<close>: the user's turn, and the model's turn when the call returns a text.
\<close>

definition turns_of :: "jsval \<Rightarrow> string \<times> chat_env \<Rightarrow> (role \<times> string) list" where
  "turns_of res qe =
     (User, fst qe) #
     (case get_prop res ''markdownContent'' of
        Inl e \<Rightarrow> []
      | Inr ctx \<Rightarrow>
          (case snd (chatWithDocument (chatKey (snd qe)) (chatReply (snd qe)) [] (fst qe) ctx) of
             Inl e \<Rightarrow> []
           | Inr t \<Rightarrow> [(Model, t)]))"

definition transcript :: "app \<Rightarrow> (role \<times> string) list" where
  "transcript s = map (\<lambda>m. (cm_role m, cm_text m)) (chatHistory s)"

subsection \<open>The chat panel as an event system\<close>

text \<open>
  The chat panel is rendered while \<^verbatim>\<open>appState === COMPLETE && result\<close>. Its input
  calls \<^verbatim>\<open>handleChat\<close> on every Enter key; its button calls it on a click and is
  \<^verbatim>\<open>disabled={!chatInput.trim() || isChatLoading}\<close>. A call in flight settles
  later, in any order.
\<close>

record panel =
  panel_app :: app
  in_flight :: "(chat_env \<times> (exn + string)) list"

datatype panel_event =
    TypeInput string
  | PressEnter chat_env
  | ClickSend chat_env
  | Settle nat

definition start_call :: "chat_env \<Rightarrow> panel \<Rightarrow> panel" where
  "start_call env p =
     (case handleChat_begin env (panel_app p) of
        None \<Rightarrow> p
      | Some (s1, outcome) \<Rightarrow>
          \<lparr> panel_app = s1, in_flight = in_flight p @ [(env, outcome)] \<rparr>)"

definition panel_shown :: "app \<Rightarrow> bool" where
  "panel_shown s = (appState s = COMPLETE \<and> truthy (result s))"

fun panel_step :: "panel_event \<Rightarrow> panel \<Rightarrow> panel" where
  "panel_step (TypeInput t) p =
     (if panel_shown (panel_app p)
      then p\<lparr> panel_app := (panel_app p)\<lparr> chatInput := t \<rparr> \<rparr> else p)"
| "panel_step (PressEnter env) p =
     (if panel_shown (panel_app p) then start_call env p else p)"
| "panel_step (ClickSend env) p =
     (if panel_shown (panel_app p) \<and>
         \<not> (blank (chatInput (panel_app p)) \<or> isChatLoading (panel_app p))
      then start_call env p else p)"
| "panel_step (Settle i) p =
     (if i < length (in_flight p)
      then \<lparr> panel_app = handleChat_settle (fst (in_flight p ! i)) (snd (in_flight p ! i))
                           (panel_app p),
             in_flight = take i (in_flight p) @ drop (Suc i) (in_flight p) \<rparr>
      else p)"

fun panel_run :: "panel_event list \<Rightarrow> panel \<Rightarrow> panel" where
  "panel_run [] p = p"
| "panel_run (e # es) p = panel_run es (panel_step e p)"


section \<open>Export\<close>

datatype export_type = Doc | Md | Json | Txt

fun type_name :: "export_type \<Rightarrow> string" where
  "type_name Doc = ''doc''"
| "type_name Md = ''md''"
| "type_name Json = ''json''"
| "type_name Txt = ''txt''"

definition starts_with :: "string \<Rightarrow> string \<Rightarrow> bool" where
  "starts_with p s = (take (length p) s = p)"

text \<open>\<^verbatim>\<open>s.replace(pat, '')\<close> for a string pattern: the first occurrence is removed.\<close>

fun remove_first :: "string \<Rightarrow> string \<Rightarrow> string" where
  "remove_first pat [] = []"
| "remove_first pat (c # cs) =
     (if starts_with pat (c # cs) then drop (length pat) (c # cs)
      else c # remove_first pat cs)"

text \<open>
  The regular expressions of the \<^verbatim>\<open>doc\<close> branch work line by line: with the
  \<^verbatim>\<open>m\<close> flag \<^verbatim>\<open>^\<close> and \<^verbatim>\<open>$\<close> match at line terminators, and \<^verbatim>\<open>.\<close> never
  matches one. \<open>map_lines f line s\<close> applies \<open>f\<close> to every line of \<open>s\<close> and keeps
  the terminators; \<open>line\<close> holds the characters of the current line read so far.
\<close>

definition line_terminator :: "char \<Rightarrow> bool" where
  "line_terminator c = (c = CHR 0x0A \<or> c = CHR 0x0D)"

fun map_lines :: "(string \<Rightarrow> string) \<Rightarrow> string \<Rightarrow> string \<Rightarrow> string" where
  "map_lines f line [] = f line"
| "map_lines f line (c # cs) =
     (if line_terminator c then f line @ c # map_lines f [] cs
      else map_lines f (line @ [c]) cs)"

text \<open>\<^verbatim>\<open>/^# (.*$)/\<close> and \<^verbatim>\<open>/^## (.*$)/\<close> on one line.\<close>

definition heading :: "string \<Rightarrow> string \<Rightarrow> string \<Rightarrow> string \<Rightarrow> string" where
  "heading marker opening closing line =
     (if starts_with marker line then opening @ drop (length marker) line @ closing
      else line)"

text \<open>The greatest position at which two asterisks start.\<close>

fun last_stars :: "string \<Rightarrow> nat option" where
  "last_stars [] = None"
| "last_stars (c # cs) =
     (case last_stars cs of
        Some j \<Rightarrow> Some (Suc j)
      | None \<Rightarrow> if c = CHR ''*'' \<and> starts_with ''*'' cs then Some 0 else None)"

text \<open>
  \<^verbatim>\<open>/\*\*(.*)\*\*/\<close> on one line: the leftmost pair of asterisks that has another
  pair after it, up to the last pair of the line (the star is greedy). What follows the
  match holds no further pair, so one line has at most one match.
\<close>

fun bold_line :: "string \<Rightarrow> string" where
  "bold_line [] = []"
| "bold_line (c # cs) =
     (if c = CHR ''*'' \<and> starts_with ''*'' cs
      then (case last_stars (tl cs) of
              Some j \<Rightarrow> ''<b>'' @ take j (tl cs) @ ''</b>'' @ drop (j + 2) (tl cs)
            | None \<Rightarrow> c # bold_line cs)
      else c # bold_line cs)"

definition line_breaks :: "string \<Rightarrow> string" where
  "line_breaks s = concat (map (\<lambda>c. if c = CHR 0x0A then ''<br>'' else [c]) s)"

definition md_to_html :: "string \<Rightarrow> string" where
  "md_to_html content =
     line_breaks
       (map_lines bold_line []
          (map_lines (heading ''## '' ''<h2>'' ''</h2>'') []
             (map_lines (heading ''# '' ''<h1>'' ''</h1>'') [] content)))"

definition doc_header :: string where
  "doc_header = ''<html xmlns:o='urn:schemas-microsoft-com:office:office' xmlns:w='urn:schemas-microsoft-com:office:word'><head><meta charset='utf-8'></head><body>''"

definition doc_footer :: string where
  "doc_footer = ''</body></html>''"

text \<open>What \<^verbatim>\<open>downloadContent\<close> hands to the browser: the blob and the file name.\<close>

record download =
  dl_mime :: string
  dl_data :: string
  dl_name :: string

definition downloadContent :: "string \<Rightarrow> string \<Rightarrow> export_type \<Rightarrow> download" where
  "downloadContent content filename ty =
     (let mde = (if ty = Doc
                 then (''application/msword'',
                       doc_header @ md_to_html content @ doc_footer, ''doc'')
                 else if ty = Json then (''application/json'', content, ''json'')
                 else (''text/plain'', content, type_name ty))
      in \<lparr> dl_mime = fst mde, dl_data = fst (snd mde),
           dl_name = remove_first ''.docx'' filename @ ''.'' @ snd (snd mde) \<rparr>)"


section \<open>Example inputs\<close>

text \<open>Concrete files, payloads and environments, for the instances proved below.\<close>

definition pdf_file :: File where
  "pdf_file = \<lparr> file_name = ''report.pdf'', file_size = 1024, file_type = ''application/pdf'' \<rparr>"

definition big_file :: File where
  "big_file = \<lparr> file_name = ''big.pdf'', file_size = 25 * 1024 * 1024,
                 file_type = ''application/pdf'' \<rparr>"

definition good_payload :: jsval where
  "good_payload =
     JObj [(''markdownContent'', JStr ''# Report''),
           (''summary'', JStr ''A report.''),
           (''suggestedFilename'', JStr ''report.docx''),
           (''keywords'', JArr [JStr ''report'']),
           (''keyQuotes'', JArr [JStr ''Results are in.'']),
           (''actionItems'',
              JArr [JObj [(''task'', JStr ''Review''), (''priority'', JStr ''High'')]]),
           (''entities'',
              JArr [JObj [(''name'', JStr ''Acme''), (''type'', JStr ''Organization''),
                          (''count'', JNum 3)]]),
           (''stats'',
              JObj [(''pageCount'', JNum 2), (''wordCount'', JNum 500),
                    (''paragraphCount'', JNum 12), (''imageCount'', JNum 1),
                    (''sentimentScore'', JNum 70), (''complexityScore'', JNum 40),
                    (''readingTimeMin'', JNum 3), (''language'', JStr ''English''),
                    (''category'', JStr ''Business''), (''tone'', JStr ''neutral'')])]"

text \<open>No \<^verbatim>\<open>wordCount\<close>, a \<^verbatim>\<open>sentimentScore\<close> of 150 and a numeric \<^verbatim>\<open>tone\<close>.\<close>

definition bad_payload :: jsval where
  "bad_payload =
     JObj [(''markdownContent'', JStr ''# Report''),
           (''stats'', JObj [(''sentimentScore'', JNum 150), (''tone'', JNum 3)])]"

definition run_with :: "jsval \<Rightarrow> run_env" where
  "run_with payload =
     \<lparr> reader = ReaderLoaded ''data:application/pdf;base64,JVBERi0='', uuid = ''doc-1'',
       uploadNow = 1000, historyNow = 2000, apiKey = Some ''key'',
       response = Inr (Some (JsonText payload)) \<rparr>"

definition chat_ok :: "string \<Rightarrow> string \<Rightarrow> chat_env" where
  "chat_ok n answer =
     \<lparr> userId = ''u'' @ n, userNow = 3000, modelId = ''m'' @ n, modelNow = 4000,
       chatKey = Some ''key'', chatReply = Inr (Some answer) \<rparr>"

definition chat_failing :: "string \<Rightarrow> chat_env" where
  "chat_failing n =
     \<lparr> userId = ''u'' @ n, userNow = 3000, modelId = ''m'' @ n, modelNow = 4000,
       chatKey = Some ''key'', chatReply = Inl ServiceFailure \<rparr>"

definition chat_silent :: "string \<Rightarrow> chat_env" where
  "chat_silent n =
     \<lparr> userId = ''u'' @ n, userNow = 3000, modelId = ''m'' @ n, modelNow = 4000,
       chatKey = Some ''key'', chatReply = Inr None \<rparr>"

definition doc_one :: FileData where
  "doc_one = \<lparr> fd_id = ''doc-1'', fd_name = ''report.pdf'', fd_size = 1024,
                fd_type = ''application/pdf'', fd_base64 = Some ''JVBERi0='',
                fd_uploadDate = 1000 \<rparr>"

text \<open>The state after a successful run on \<open>pdf_file\<close> from a fresh start.\<close>

definition analysed :: app where
  "analysed = last (processFile (run_with good_payload) pdf_file (init_app Map.empty))"

text \<open>The chat panel on that state, with no call in flight.\<close>

definition panel0 :: panel where
  "panel0 = \<lparr> panel_app = analysed, in_flight = [] \<rparr>"

section \<open>The history ledger\<close>

lemma filter_other_ids_eq:
  "filter_other_ids fid xs = Inr ys \<Longrightarrow>
     ys = filter (\<lambda>i. get_prop i ''id'' \<noteq> Inr (JStr fid)) xs"
proof (induction xs arbitrary: ys)
  case Nil
  then show ?case by simp
next
  case (Cons i xs)
  then show ?case
    by (auto split: sum.splits if_splits)
qed

lemma get_prop_present: "present v \<Longrightarrow> \<exists>x. get_prop v k = Inr x"
  by (cases v) (auto simp: present_def)

lemma filter_other_ids_total:
  "list_all present xs \<Longrightarrow> \<exists>ys. filter_other_ids fid xs = Inr ys"
proof (induction xs)
  case Nil
  then show ?case by simp
next
  case (Cons i xs)
  then obtain ys where "filter_other_ids fid xs = Inr ys" by auto
  moreover from Cons.prems obtain v where "get_prop i ''id'' = Inr v"
    using get_prop_present [of i "''id''"] by auto
  ultimately show ?case by simp
qed

lemma newItem_present: "present (newItem file now summary stats)"
  by (simp add: newItem_def present_def)

lemma newItem_id: "get_prop (newItem file now summary stats) ''id'' = Inr (JStr (fd_id file))"
  by (simp add: newItem_def)

text \<open>One record operation on a well-formed ledger, in closed form.\<close>

lemma addToHistory_ok:
  assumes "recentFiles s = JArr items" and "list_all present items" and "present analysis"
  shows "\<exists>summary stats.
           get_prop analysis ''summary'' = Inr summary \<and>
           get_prop analysis ''stats'' = Inr stats \<and>
           addToHistory now fd analysis s =
             Inr (s\<lparr> recentFiles :=
                        JArr (take 10 (newItem fd now summary stats #
                          filter (\<lambda>i. get_prop i ''id'' \<noteq> Inr (JStr (fd_id fd))) items)),
                      localStorage :=
                        (localStorage s)(history_key \<mapsto>
                          JsonText (jsonify (JArr (take 10 (newItem fd now summary stats #
                            filter (\<lambda>i. get_prop i ''id'' \<noteq> Inr (JStr (fd_id fd))) items))))) \<rparr>)"
proof -
  obtain summary where a: "get_prop analysis ''summary'' = Inr summary"
    using get_prop_present [OF assms(3)] by blast
  obtain stats where b: "get_prop analysis ''stats'' = Inr stats"
    using get_prop_present [OF assms(3)] by blast
  obtain others where c: "filter_other_ids (fd_id fd) items = Inr others"
    using filter_other_ids_total [OF assms(2)] by blast
  have d: "others = filter (\<lambda>i. get_prop i ''id'' \<noteq> Inr (JStr (fd_id fd))) items"
    using filter_other_ids_eq [OF c] .
  show ?thesis
    using a b c d assms(1) by (simp add: addToHistory_def setItem_def Let_def)
qed

lemma addToHistory_keeps_ok:
  assumes "ledger_ok (recentFiles s)" and "present analysis"
    and "addToHistory now file analysis s = Inr s'"
  shows "ledger_ok (recentFiles s')"
proof -
  from assms(1) obtain items where i: "recentFiles s = JArr items" "list_all present items"
    by (cases "recentFiles s") auto
  from addToHistory_ok [OF i assms(2), where now = now and fd = "file"] assms(3)
  obtain summary stats where
    "recentFiles s' = JArr (take 10 (newItem file now summary stats #
        filter (\<lambda>i. get_prop i ''id'' \<noteq> Inr (JStr (fd_id file))) items))"
    by auto
  moreover have "list_all present (take 10 (newItem file now summary stats #
        filter (\<lambda>i. get_prop i ''id'' \<noteq> Inr (JStr (fd_id file))) items))"
    using i(2) newItem_present
    by (auto simp: list_all_iff dest!: in_set_takeD)
  ultimately show ?thesis by simp
qed

lemma record_all_ok:
  "ledger_ok (recentFiles s) \<Longrightarrow> \<forall>r \<in> set rs. present (snd (snd r)) \<Longrightarrow>
   \<exists>s'. record_all rs s = Inr s' \<and> ledger_ok (recentFiles s')"
proof (induction rs arbitrary: s)
  case Nil
  then show ?case by simp
next
  case (Cons r rs)
  from Cons.prems(1) obtain items where i: "recentFiles s = JArr items" "list_all present items"
    by (cases "recentFiles s") auto
  from Cons.prems(2) have p: "present (snd (snd r))" by simp
  from addToHistory_ok [OF i p, where now = "fst r" and fd = "fst (snd r)"]
  obtain s1 where s1: "addToHistory (fst r) (fst (snd r)) (snd (snd r)) s = Inr s1" by blast
  have "ledger_ok (recentFiles s1)"
    using addToHistory_keeps_ok [OF Cons.prems(1) p s1] .
  with Cons.IH [of s1] Cons.prems(2) s1 show ?case by simp
qed

lemma record_all_append:
  "record_all (rs @ [r]) s =
     (case record_all rs s of
        Inl e \<Rightarrow> Inl e
      | Inr s1 \<Rightarrow> addToHistory (fst r) (fst (snd r)) (snd (snd r)) s1)"
  by (induction rs arbitrary: s) (auto split: sum.splits)




text \<open>
  Claim C5. Starting from a ledger that is an array of entries, every sequence of record
  operations (with analyses that are not \<^verbatim>\<open>null\<close>) runs through, and after the last
  one the ledger is the new entry followed by the earlier entries without those of the
  same document identity, cut to 10: it has at most 10 entries, the new entry is at the
  front, no other entry has its identity, and the whole list has been written to
  \<^verbatim>\<open>localStorage\<close>.
\<close>

theorem history_ledger_bounded:
  assumes "ledger_ok (recentFiles s)"
    and "\<forall>r \<in> set (rs @ [(now, fd, analysis)]). present (snd (snd r))"
  shows "\<exists>s1 s' summary stats.
           record_all rs s = Inr s1 \<and>
           record_all (rs @ [(now, fd, analysis)]) s = Inr s' \<and>
           recentFiles s' =
             JArr (take 10 (newItem fd now summary stats #
               filter (\<lambda>i. get_prop i ''id'' \<noteq> Inr (JStr (fd_id fd)))
                 (entries (recentFiles s1)))) \<and>
           length (entries (recentFiles s')) \<le> 10 \<and>
           hd (entries (recentFiles s')) = newItem fd now summary stats \<and>
           get_prop (hd (entries (recentFiles s'))) ''id'' = Inr (JStr (fd_id fd)) \<and>
           (\<forall>i \<in> set (tl (entries (recentFiles s'))).
              get_prop i ''id'' \<noteq> Inr (JStr (fd_id fd))) \<and>
           localStorage s' history_key = JSON_stringify (recentFiles s')"
proof -
  from assms(2) have rs: "\<forall>r \<in> set rs. present (snd (snd r))" and a: "present analysis"
    by auto
  from record_all_ok [OF assms(1) rs]
  obtain s1 where s1: "record_all rs s = Inr s1" and ok1: "ledger_ok (recentFiles s1)"
    by blast
  from ok1 obtain items where i: "recentFiles s1 = JArr items" "list_all present items"
    by (cases "recentFiles s1") auto
  let ?others = "filter (\<lambda>i. get_prop i ''id'' \<noteq> Inr (JStr (fd_id fd))) items"
  from addToHistory_ok [OF i a, where now = now and fd = fd]
  obtain summary stats where
    step: "addToHistory now fd analysis s1 =
             Inr (s1\<lparr> recentFiles := JArr (take 10 (newItem fd now summary stats # ?others)),
                       localStorage := (localStorage s1)(history_key \<mapsto>
                         JsonText (jsonify (JArr (take 10
                           (newItem fd now summary stats # ?others))))) \<rparr>)"
    by blast
  let ?s' = "s1\<lparr> recentFiles := JArr (take 10 (newItem fd now summary stats # ?others)),
                   localStorage := (localStorage s1)(history_key \<mapsto>
                     JsonText (jsonify (JArr (take 10
                       (newItem fd now summary stats # ?others))))) \<rparr>"
  have run: "record_all (rs @ [(now, fd, analysis)]) s = Inr ?s'"
    using s1 step by (simp add: record_all_append)
  have tail: "\<forall>i \<in> set (take 9 ?others). get_prop i ''id'' \<noteq> Inr (JStr (fd_id fd))"
    by (auto dest!: in_set_takeD)
  have ten: "take 10 (newItem fd now summary stats # ?others) =
               newItem fd now summary stats # take 9 ?others"
    by (simp add: take_Cons')
  have tl_eq: "tl (entries (recentFiles ?s')) = take 9 ?others"
    using ten by simp
  have "recentFiles ?s' =
          JArr (take 10 (newItem fd now summary stats #
            filter (\<lambda>i. get_prop i ''id'' \<noteq> Inr (JStr (fd_id fd)))
              (entries (recentFiles s1))))"
    using i(1) by simp
  moreover have "length (entries (recentFiles ?s')) \<le> 10"
    by simp
  moreover have "hd (entries (recentFiles ?s')) = newItem fd now summary stats"
    using ten by simp
  moreover have "get_prop (hd (entries (recentFiles ?s'))) ''id'' = Inr (JStr (fd_id fd))"
    using ten by (simp add: newItem_id)
  moreover have "\<forall>i \<in> set (tl (entries (recentFiles ?s'))).
                   get_prop i ''id'' \<noteq> Inr (JStr (fd_id fd))"
    unfolding tl_eq by (rule tail)
  moreover have "localStorage ?s' history_key = JSON_stringify (recentFiles ?s')"
    by simp
  ultimately have "record_all rs s = Inr s1 \<and>
           record_all (rs @ [(now, fd, analysis)]) s = Inr ?s' \<and>
           recentFiles ?s' =
             JArr (take 10 (newItem fd now summary stats #
               filter (\<lambda>i. get_prop i ''id'' \<noteq> Inr (JStr (fd_id fd)))
                 (entries (recentFiles s1)))) \<and>
           length (entries (recentFiles ?s')) \<le> 10 \<and>
           hd (entries (recentFiles ?s')) = newItem fd now summary stats \<and>
           get_prop (hd (entries (recentFiles ?s'))) ''id'' = Inr (JStr (fd_id fd)) \<and>
           (\<forall>i \<in> set (tl (entries (recentFiles ?s'))).
              get_prop i ''id'' \<noteq> Inr (JStr (fd_id fd))) \<and>
           localStorage ?s' history_key = JSON_stringify (recentFiles ?s')"
    using s1 run by (intro conjI)
  then show ?thesis
    by (intro exI)
qed

theorem history_ledger_bounded_witness:
  "ledger_ok (recentFiles (init_app Map.empty)) \<and> present good_payload \<and>
   (\<exists>s'. record_all [(2000, doc_one, good_payload), (5000, doc_one, good_payload)]
           (init_app Map.empty) = Inr s' \<and>
         length (entries (recentFiles s')) \<le> 10 \<and>
         get_prop (hd (entries (recentFiles s'))) ''id'' = Inr (JStr ''doc-1'') \<and>
         (\<forall>i \<in> set (tl (entries (recentFiles s'))). get_prop i ''id'' \<noteq> Inr (JStr ''doc-1'')) \<and>
         localStorage s' history_key = JSON_stringify (recentFiles s'))"
proof -
  have h1: "ledger_ok (recentFiles (init_app Map.empty))"
    by (simp add: init_app_def)
  have p: "present good_payload"
    by (simp add: present_def good_payload_def)
  have h2: "\<forall>r \<in> set ([(2000, doc_one, good_payload)] @ [(5000, doc_one, good_payload)]).
              present (snd (snd r))"
    using p by simp
  have i: "fd_id doc_one = ''doc-1''"
    by (simp add: doc_one_def)
  from history_ledger_bounded [OF h1 h2]
  obtain s' where
    "record_all ([(2000, doc_one, good_payload)] @ [(5000, doc_one, good_payload)])
       (init_app Map.empty) = Inr s'"
    "length (entries (recentFiles s')) \<le> 10"
    "get_prop (hd (entries (recentFiles s'))) ''id'' = Inr (JStr (fd_id doc_one))"
    "\<forall>i \<in> set (tl (entries (recentFiles s'))). get_prop i ''id'' \<noteq> Inr (JStr (fd_id doc_one))"
    "localStorage s' history_key = JSON_stringify (recentFiles s')"
    by blast
  then have "\<exists>s'. record_all [(2000, doc_one, good_payload), (5000, doc_one, good_payload)]
           (init_app Map.empty) = Inr s' \<and>
         length (entries (recentFiles s')) \<le> 10 \<and>
         get_prop (hd (entries (recentFiles s'))) ''id'' = Inr (JStr ''doc-1'') \<and>
         (\<forall>i \<in> set (tl (entries (recentFiles s'))). get_prop i ''id'' \<noteq> Inr (JStr ''doc-1'')) \<and>
         localStorage s' history_key = JSON_stringify (recentFiles s')"
    unfolding i by (intro exI [of _ s']) simp
  with h1 p show ?thesis by (intro conjI)
qed

section \<open>Loading the history\<close>

text \<open>
  Claim C9, as stated, fails: a persisted value that is not valid JSON makes the mount
  effect throw, and a persisted JSON value that is not a list becomes the ledger as it is.
\<close>

theorem loadHistory_malformed_counterexample:
  "loadHistory (init_app (Map.empty(history_key \<mapsto> NotJson ''{not json''))) = Inl SyntaxError \<and>
   loadHistory (init_app (Map.empty(history_key \<mapsto> JsonText (JNum 5)))) =
     Inr ((init_app (Map.empty(history_key \<mapsto> JsonText (JNum 5))))\<lparr> recentFiles := JNum 5 \<rparr>)"
  by (simp add: loadHistory_def init_app_def)

text \<open>
  Claim C9, amended. On mount the ledger is read from \<^verbatim>\<open>localStorage\<close>: when the
  persisted value is missing or the empty string, the ledger stays the empty list and
  nothing is thrown; when it is a JSON document, the value it denotes becomes the ledger
  unchecked; when it is not valid JSON, \<^verbatim>\<open>JSON.parse\<close> throws.
\<close>

theorem loadHistory_cases:
  "(st history_key = None \<or> st history_key = Some (NotJson []) \<longrightarrow>
      loadHistory (init_app st) = Inr (init_app st) \<and> recentFiles (init_app st) = JArr []) \<and>
   (st history_key = Some (JsonText v) \<longrightarrow>
      loadHistory (init_app st) = Inr ((init_app st)\<lparr> recentFiles := v \<rparr>)) \<and>
   (st history_key = Some (NotJson t) \<and> t \<noteq> [] \<longrightarrow>
      loadHistory (init_app st) = Inl SyntaxError)"
  by (auto simp: loadHistory_def init_app_def)

theorem loadHistory_cases_witness:
  "loadHistory (init_app Map.empty) = Inr (init_app Map.empty) \<and>
   recentFiles (init_app Map.empty) = JArr [] \<and>
   loadHistory (init_app (Map.empty(history_key \<mapsto> JsonText (JArr [])))) =
     Inr ((init_app (Map.empty(history_key \<mapsto> JsonText (JArr []))))\<lparr> recentFiles := JArr [] \<rparr>) \<and>
   loadHistory (init_app (Map.empty(history_key \<mapsto> NotJson ''{not json''))) = Inl SyntaxError"
proof -
  have a: "(Map.empty :: storage) history_key = None" by simp
  have b: "(Map.empty(history_key \<mapsto> JsonText (JArr []))) history_key = Some (JsonText (JArr []))"
    by simp
  have c: "(Map.empty(history_key \<mapsto> NotJson ''{not json'')) history_key = Some (NotJson ''{not json'')
           \<and> ''{not json'' \<noteq> []"
    by simp
  from loadHistory_cases [of Map.empty] a
  have 1: "loadHistory (init_app Map.empty) = Inr (init_app Map.empty) \<and>
           recentFiles (init_app Map.empty) = JArr []"
    by blast
  from loadHistory_cases [of "Map.empty(history_key \<mapsto> JsonText (JArr []))" "JArr []"] b
  have 2: "loadHistory (init_app (Map.empty(history_key \<mapsto> JsonText (JArr [])))) =
     Inr ((init_app (Map.empty(history_key \<mapsto> JsonText (JArr []))))\<lparr> recentFiles := JArr [] \<rparr>)"
    by blast
  from loadHistory_cases [of "Map.empty(history_key \<mapsto> NotJson ''{not json'')" _ "''{not json''"] c
  have 3: "loadHistory (init_app (Map.empty(history_key \<mapsto> NotJson ''{not json''))) = Inl SyntaxError"
    by blast
  from 1 2 3 show ?thesis by (intro conjI) simp_all
qed

section \<open>The pipeline run\<close>

lemma addToHistory_frame:
  "addToHistory now fd analysis s = Inr s' \<Longrightarrow>
     appState s' = appState s \<and> result s' = result s \<and> chatHistory s' = chatHistory s \<and>
     sent s' = sent s \<and> error s' = error s"
  by (auto simp: addToHistory_def Let_def split: sum.splits jsval.splits)

lemma complete_run_frame:
  "appState (complete_run now fd analysis s) = COMPLETE \<and>
   result (complete_run now fd analysis s) = analysis \<and>
   chatHistory (complete_run now fd analysis s) = chatHistory s \<and>
   sent (complete_run now fd analysis s) = sent s"
  by (auto simp: complete_run_def Let_def split: sum.splits dest: addToHistory_frame)

lemma processFile_nonempty: "processFile env f s \<noteq> []"
  by (simp add: processFile_def Let_def split: reader_outcome.splits)

lemma run_good:
  "map appState (processFile (run_with payload) pdf_file (init_app st)) =
     [UPLOADING, PROCESSING, COMPLETE] \<and>
   appState (last (processFile (run_with payload) pdf_file (init_app st))) = COMPLETE \<and>
   result (last (processFile (run_with payload) pdf_file (init_app st))) = payload \<and>
   chatHistory (last (processFile (run_with payload) pdf_file (init_app st))) = []"
  by (simp add: processFile_def run_with_def pdf_file_def init_app_def reader_onload_def
        Let_def analyzeAndConvertPDF_def getClient_def complete_run_frame)

lemma analysed_facts:
  "appState analysed = COMPLETE \<and> result analysed = good_payload \<and> chatHistory analysed = []"
  using run_good [of good_payload Map.empty]
  by (simp add: analysed_def)

text \<open>
  Claim C1. The upload box is rendered only while the phase is \<open>IDLE\<close>, so a run
  starts there. A run that ends in \<open>COMPLETE\<close> has gone through exactly
  \<open>IDLE\<close>, \<open>UPLOADING\<close>, \<open>PROCESSING\<close>, \<open>COMPLETE\<close>, in this order, each once
  (\<open>UPLOADING\<close> is the spec's Ingesting, \<open>PROCESSING\<close> its Analyzing).
\<close>

theorem processFile_success_phases:
  assumes "appState s = IDLE"
    and "appState (last (processFile env f s)) = COMPLETE"
  shows "phases s (processFile env f s) = [IDLE, UPLOADING, PROCESSING, COMPLETE]"
proof (cases "file_size f > 20 * 1024 * 1024")
  case True
  with assms show ?thesis by (simp add: processFile_def)
next
  case False
  show ?thesis
  proof (cases "reader env")
    case ReaderThrows
    with False assms show ?thesis by (simp add: processFile_def)
  next
    case ReaderFails
    with False assms show ?thesis by (simp add: processFile_def)
  next
    case (ReaderLoaded url)
    show ?thesis
    proof (cases "snd (analyzeAndConvertPDF (apiKey env) (response env)
                     (nth_opt (split_on CHR '','' url) 1) (file_type f))")
      case (Inl e)
      with False ReaderLoaded assms show ?thesis
        by (simp add: processFile_def reader_onload_def Let_def)
    next
      case (Inr analysis)
      with False ReaderLoaded assms(1) show ?thesis
        by (simp add: processFile_def reader_onload_def Let_def phases_def complete_run_frame)
    qed
  qed
qed

theorem processFile_success_phases_witness:
  "appState (init_app Map.empty) = IDLE \<and>
   appState (last (processFile (run_with good_payload) pdf_file (init_app Map.empty))) = COMPLETE \<and>
   phases (init_app Map.empty) (processFile (run_with good_payload) pdf_file (init_app Map.empty)) =
     [IDLE, UPLOADING, PROCESSING, COMPLETE]"
proof -
  have a: "appState (init_app Map.empty) = IDLE" by (simp add: init_app_def)
  have b: "appState (last (processFile (run_with good_payload) pdf_file (init_app Map.empty))) = COMPLETE"
    using run_good [of good_payload Map.empty] by simp
  from processFile_success_phases [OF a b] a b show ?thesis by (intro conjI)
qed

text \<open>
  Claim C3. For a file of more than 20 * 1024 * 1024 bytes, \<^verbatim>\<open>processFile\<close> only sets
  the size error: the run is this one state, no request has been sent, and the phase and
  the active result are what they were (a run started in \<open>IDLE\<close> stays there).
\<close>

theorem processFile_size_exceeded:
  assumes "file_size f > 20 * 1024 * 1024"
  shows "processFile env f s = [s\<lparr> error := Some ''File size exceeds 20MB limit.'' \<rparr>] \<and>
         error (last (processFile env f s)) = Some ''File size exceeds 20MB limit.'' \<and>
         sent (last (processFile env f s)) = sent s \<and>
         appState (last (processFile env f s)) = appState s \<and>
         result (last (processFile env f s)) = result s \<and>
         phases s (processFile env f s) = [appState s, appState s]"
  using assms by (simp add: processFile_def phases_def)

theorem processFile_size_exceeded_witness:
  "20 * 1024 * 1024 < file_size big_file \<and>
   error (last (processFile (run_with good_payload) big_file (init_app Map.empty))) =
     Some ''File size exceeds 20MB limit.'' \<and>
   sent (last (processFile (run_with good_payload) big_file (init_app Map.empty))) = [] \<and>
   appState (last (processFile (run_with good_payload) big_file (init_app Map.empty))) = IDLE \<and>
   phases (init_app Map.empty) (processFile (run_with good_payload) big_file (init_app Map.empty)) =
     [IDLE, IDLE]"
proof -
  have a: "20 * 1024 * 1024 < file_size big_file" by (simp add: big_file_def)
  from processFile_size_exceeded [OF a, of "run_with good_payload" "init_app Map.empty"] a
  show ?thesis by (simp add: init_app_def phases_def)
qed

text \<open>
  Claim C2, as stated, fails: a payload without \<^verbatim>\<open>wordCount\<close>, with a
  \<^verbatim>\<open>sentimentScore\<close> of 150 and a numeric \<^verbatim>\<open>tone\<close> is published as the result,
  unchanged, and the run ends in \<open>COMPLETE\<close>.
\<close>

theorem analysis_unvalidated_counterexample:
  "map appState (processFile (run_with bad_payload) pdf_file (init_app Map.empty)) =
     [UPLOADING, PROCESSING, COMPLETE] \<and>
   result (last (processFile (run_with bad_payload) pdf_file (init_app Map.empty))) =
     JObj [(''markdownContent'', JStr ''# Report''),
           (''stats'', JObj [(''sentimentScore'', JNum 150), (''tone'', JNum 3)])]"
  using run_good [of bad_payload Map.empty] by (simp add: bad_payload_def)

lemma analyze_outcome:
  "snd (analyzeAndConvertPDF key resp b m) = Inr v \<longleftrightarrow>
     getClient key = Inr () \<and> resp = Inr (Some (JsonText v))"
proof (cases "getClient key")
  case (Inl e)
  then show ?thesis by (simp add: analyzeAndConvertPDF_def)
next
  case (Inr u)
  show ?thesis
  proof (cases resp)
    case (Inl e)
    with Inr show ?thesis by (simp add: analyzeAndConvertPDF_def)
  next
    case r: (Inr t)
    show ?thesis
    proof (cases t)
      case None
      with Inr r show ?thesis by (simp add: analyzeAndConvertPDF_def)
    next
      case (Some x)
      with Inr r show ?thesis by (cases x) (auto simp: analyzeAndConvertPDF_def)
    qed
  qed
qed

text \<open>
  Claim C2, amended. \<^verbatim>\<open>analyzeAndConvertPDF\<close> returns a value exactly when the API key
  is set and the service answers with a text that is a JSON document, and the value is
  the one the text denotes, whatever its fields: nothing is checked and nothing is
  clamped. A run whose file is within the size limit and is read then ends in
  \<open>COMPLETE\<close> with that value as the active result.
\<close>

theorem analysis_published_as_received:
  "(snd (analyzeAndConvertPDF key resp b m) = Inr v \<longleftrightarrow>
      getClient key = Inr () \<and> resp = Inr (Some (JsonText v))) \<and>
   (file_size f \<le> 20 * 1024 * 1024 \<and> reader env = ReaderLoaded url \<and>
    getClient (apiKey env) = Inr () \<and> response env = Inr (Some (JsonText v)) \<longrightarrow>
      appState (last (processFile env f s)) = COMPLETE \<and>
      result (last (processFile env f s)) = v)"
proof (intro conjI impI)
  show "snd (analyzeAndConvertPDF key resp b m) = Inr v \<longleftrightarrow>
      getClient key = Inr () \<and> resp = Inr (Some (JsonText v))"
    by (rule analyze_outcome)
next
  assume h: "file_size f \<le> 20 * 1024 * 1024 \<and> reader env = ReaderLoaded url \<and>
    getClient (apiKey env) = Inr () \<and> response env = Inr (Some (JsonText v))"
  then have a: "snd (analyzeAndConvertPDF (apiKey env) (response env)
                  (nth_opt (split_on CHR '','' url) 1) (file_type f)) = Inr v"
    by (simp add: analyze_outcome)
  from h a show "appState (last (processFile env f s)) = COMPLETE"
    by (simp add: processFile_def reader_onload_def Let_def complete_run_frame)
  from h a show "result (last (processFile env f s)) = v"
    by (simp add: processFile_def reader_onload_def Let_def complete_run_frame)
qed

theorem analysis_published_as_received_witness:
  "file_size pdf_file \<le> 20 * 1024 * 1024 \<and>
   getClient (apiKey (run_with good_payload)) = Inr () \<and>
   appState (last (processFile (run_with good_payload) pdf_file (init_app Map.empty))) = COMPLETE \<and>
   result (last (processFile (run_with good_payload) pdf_file (init_app Map.empty))) = good_payload"
proof -
  have h: "file_size pdf_file \<le> 20 * 1024 * 1024 \<and>
           reader (run_with good_payload) = ReaderLoaded ''data:application/pdf;base64,JVBERi0='' \<and>
           getClient (apiKey (run_with good_payload)) = Inr () \<and>
           response (run_with good_payload) = Inr (Some (JsonText good_payload))"
    by (simp add: pdf_file_def run_with_def getClient_def)
  from analysis_published_as_received [where env = "run_with good_payload" and f = pdf_file
      and url = "''data:application/pdf;base64,JVBERi0=''" and v = good_payload
      and s = "init_app Map.empty"] h
  show ?thesis by blast
qed

section \<open>The chat transcript\<close>

lemma chat_outcome_indep:
  "snd (chatWithDocument k r h m c) = snd (chatWithDocument k r h' m' c)"
  by (simp add: chatWithDocument_def split: sum.splits option.splits)

lemma truthy_get_prop: "truthy v \<Longrightarrow> \<exists>x. get_prop v k = Inr x"
  by (cases v) auto

lemma handleChat_rejected:
  "blank (chatInput s) \<or> \<not> truthy (result s) \<Longrightarrow> handleChat env s = [s]"
  by (simp add: handleChat_def handleChat_begin_def)

lemma handleChat_turns:
  assumes "\<not> blank (chatInput s)" and "truthy (result s)"
  shows "\<exists>s1 s2. handleChat env s = [s1, s2] \<and>
           transcript s1 = transcript s @ [(User, chatInput s)] \<and>
           isChatLoading s1 \<and>
           transcript s2 = transcript s @ turns_of (result s) (chatInput s, env) \<and>
           \<not> isChatLoading s2 \<and>
           result s1 = result s \<and> result s2 = result s"
proof -
  from truthy_get_prop [OF assms(2)] obtain ctx
    where ctx: "get_prop (result s) ''markdownContent'' = Inr ctx" by blast
  have o: "snd (chatWithDocument (chatKey env) (chatReply env) (chatHistory s) (chatInput s) ctx)
           = snd (chatWithDocument (chatKey env) (chatReply env) [] (chatInput s) ctx)"
    by (rule chat_outcome_indep)
  show ?thesis
    using assms ctx o
    by (cases "snd (chatWithDocument (chatKey env) (chatReply env) [] (chatInput s) ctx)")
       (simp_all add: handleChat_def handleChat_begin_def handleChat_settle_def Let_def
          transcript_def turns_of_def)
qed

lemma ask_turns:
  assumes "\<not> blank (fst qe)" and "truthy (result s)"
  shows "transcript (ask qe s) = transcript s @ turns_of (result s) qe \<and>
         result (ask qe s) = result s"
proof -
  let ?s = "s\<lparr> chatInput := fst qe \<rparr>"
  have "\<not> blank (chatInput ?s)" and "truthy (result ?s)"
    using assms by simp_all
  from handleChat_turns [OF this, of "snd qe"]
  obtain s1 s2 where "handleChat (snd qe) ?s = [s1, s2]"
    and "transcript s2 = transcript ?s @ turns_of (result ?s) (chatInput ?s, snd qe)"
    and "result s2 = result ?s"
    by blast
  then show ?thesis
    by (simp add: ask_def transcript_def)
qed

text \<open>
  Claim C7. While a result is active, every call with a non-blank question first appends
  the user's turn (the state before the reply arrives already has it), and when the call
  has settled the transcript has grown by the user's turn followed by the model's turn if
  the call returned a text, and by the user's turn alone if it failed. So a sequence of
  questions adds, in call order, one user turn each and one model turn per successful
  call.
\<close>

theorem asks_transcript:
  assumes "truthy (result s)" and "\<forall>qe \<in> set qes. \<not> blank (fst qe)"
  shows "transcript (asks qes s) = transcript s @ concat (map (turns_of (result s)) qes) \<and>
         result (asks qes s) = result s \<and>
         (\<forall>t q env. truthy (result t) \<and> \<not> blank q \<longrightarrow>
            (\<exists>s1 s2. handleChat env (t\<lparr> chatInput := q \<rparr>) = [s1, s2] \<and>
               transcript s1 = transcript t @ [(User, q)] \<and>
               transcript s2 = transcript t @ turns_of (result t) (q, env)))"
proof (intro conjI allI impI)
  show "transcript (asks qes s) = transcript s @ concat (map (turns_of (result s)) qes)"
    and "result (asks qes s) = result s"
    using assms
  proof (induction qes arbitrary: s)
    case Nil
    {
      case 1
      then show ?case by simp
    next
      case 2
      then show ?case by simp
    }
  next
    case (Cons qe qes)
    {
      case 1
      then have b: "\<not> blank (fst qe)" and t: "truthy (result s)" by simp_all
      from ask_turns [OF b t] 1 Cons.IH(1) [of "ask qe s"] show ?case by simp
    next
      case 2
      then have b: "\<not> blank (fst qe)" and t: "truthy (result s)" by simp_all
      from ask_turns [OF b t] 2 Cons.IH(2) [of "ask qe s"] show ?case by simp
    }
  qed
next
  fix t :: app and q :: string and env :: chat_env
  assume h: "truthy (result t) \<and> \<not> blank q"
  let ?t = "t\<lparr> chatInput := q \<rparr>"
  from h have "\<not> blank (chatInput ?t)" and "truthy (result ?t)" by simp_all
  from handleChat_turns [OF this, of env]
  obtain s1 s2 where "handleChat env ?t = [s1, s2]"
    and "transcript s1 = transcript ?t @ [(User, chatInput ?t)]"
    and "transcript s2 = transcript ?t @ turns_of (result ?t) (chatInput ?t, env)"
    by blast
  then have "handleChat env ?t = [s1, s2] \<and> transcript s1 = transcript t @ [(User, q)] \<and>
             transcript s2 = transcript t @ turns_of (result t) (q, env)"
    by (simp add: transcript_def)
  then show "\<exists>s1 s2. handleChat env ?t = [s1, s2] \<and>
               transcript s1 = transcript t @ [(User, q)] \<and>
               transcript s2 = transcript t @ turns_of (result t) (q, env)"
    by (intro exI)
qed

text \<open>Three questions, the second call failing: five turns, the second question unanswered.\<close>

theorem asks_transcript_witness:
  "truthy (result analysed) \<and> \<not> blank ''one'' \<and> \<not> blank ''two'' \<and> \<not> blank ''three'' \<and>
   transcript (asks [(''one'', chat_ok ''1'' ''first''), (''two'', chat_failing ''2''),
                     (''three'', chat_ok ''3'' ''third'')] analysed) =
     [(User, ''one''), (Model, ''first''), (User, ''two''), (User, ''three''), (Model, ''third'')] \<and>
   length (chatHistory (asks [(''one'', chat_ok ''1'' ''first''), (''two'', chat_failing ''2''),
                     (''three'', chat_ok ''3'' ''third'')] analysed)) = 5"
proof -
  have t: "truthy (result analysed)"
    using analysed_facts by (simp add: good_payload_def)
  have b: "\<not> blank ''one''" "\<not> blank ''two''" "\<not> blank ''three''"
    by (simp_all add: blank_def is_space_def)
  have h: "\<forall>qe \<in> set [(''one'', chat_ok ''1'' ''first''), (''two'', chat_failing ''2''),
                     (''three'', chat_ok ''3'' ''third'')]. \<not> blank (fst qe)"
    using b by simp
  have e: "transcript (asks [(''one'', chat_ok ''1'' ''first''), (''two'', chat_failing ''2''),
                     (''three'', chat_ok ''3'' ''third'')] analysed) =
     [(User, ''one''), (Model, ''first''), (User, ''two''), (User, ''three''), (Model, ''third'')]"
    using asks_transcript [OF t h] analysed_facts
    by (simp add: turns_of_def good_payload_def chatWithDocument_def getClient_def
          chat_ok_def chat_failing_def transcript_def)
  then have "length (transcript (asks [(''one'', chat_ok ''1'' ''first''), (''two'', chat_failing ''2''),
                     (''three'', chat_ok ''3'' ''third'')] analysed)) = 5"
    by simp
  then have "length (chatHistory (asks [(''one'', chat_ok ''1'' ''first''), (''two'', chat_failing ''2''),
                     (''three'', chat_ok ''3'' ''third'')] analysed)) = 5"
    by (simp add: transcript_def)
  with t b e show ?thesis by (intro conjI)
qed

text \<open>
  Claim C10. When the service's response has no text or an empty one,
  \<^verbatim>\<open>chatWithDocument\<close> returns the fixed sentence, and \<^verbatim>\<open>handleChat\<close> appends it to
  the transcript as the model's turn.
\<close>

theorem chat_fallback:
  assumes "getClient key = Inr ()" and "slice_context ctx = Inr c"
    and "reply = Inr None \<or> reply = Inr (Some [])"
  shows "snd (chatWithDocument key reply history msg ctx) = Inr ''I couldn't generate a response.'' \<and>
         (\<not> blank (chatInput s) \<and> truthy (result s) \<and>
          get_prop (result s) ''markdownContent'' = Inr ctx \<and>
          chatKey env = key \<and> chatReply env = reply \<longrightarrow>
            chatHistory (last (handleChat env s)) =
              chatHistory s @
                [\<lparr> cm_id = userId env, cm_role = User, cm_text = chatInput s,
                   cm_timestamp = userNow env \<rparr>,
                 \<lparr> cm_id = modelId env, cm_role = Model,
                   cm_text = ''I couldn't generate a response.'', cm_timestamp = modelNow env \<rparr>])"
proof -
  have a: "snd (chatWithDocument key reply h m ctx) = Inr ''I couldn't generate a response.''" for h m
    using assms by (auto simp: chatWithDocument_def fallback_reply_def)
  show ?thesis
  proof (intro conjI impI)
    show "snd (chatWithDocument key reply history msg ctx) = Inr ''I couldn't generate a response.''"
      by (rule a)
  next
    assume h: "\<not> blank (chatInput s) \<and> truthy (result s) \<and>
          get_prop (result s) ''markdownContent'' = Inr ctx \<and>
          chatKey env = key \<and> chatReply env = reply"
    then show "chatHistory (last (handleChat env s)) =
              chatHistory s @
                [\<lparr> cm_id = userId env, cm_role = User, cm_text = chatInput s,
                   cm_timestamp = userNow env \<rparr>,
                 \<lparr> cm_id = modelId env, cm_role = Model,
                   cm_text = ''I couldn't generate a response.'', cm_timestamp = modelNow env \<rparr>]"
      using a [of "chatHistory s" "chatInput s"]
      by (simp add: handleChat_def handleChat_begin_def handleChat_settle_def Let_def)
  qed
qed

theorem chat_fallback_witness:
  "getClient (Some ''key'') = Inr () \<and> slice_context (JStr ''# Report'') = Inr (JStr ''# Report'') \<and>
   snd (chatWithDocument (Some ''key'') (Inr None) [] ''why'' (JStr ''# Report'')) =
     Inr ''I couldn't generate a response.'' \<and>
   transcript (ask (''why'', chat_silent ''1'') analysed) =
     [(User, ''why''), (Model, ''I couldn't generate a response.'')]"
proof -
  have g: "getClient (Some ''key'') = Inr ()" by (simp add: getClient_def)
  have c: "slice_context (JStr ''# Report'') = Inr (JStr ''# Report'')" by simp
  have r: "(Inr None :: exn + string option) = Inr None \<or>
           (Inr None :: exn + string option) = Inr (Some [])" by simp
  note f = chat_fallback [OF g c r]
  have h: "\<not> blank (chatInput (analysed\<lparr>chatInput := ''why''\<rparr>)) \<and>
           truthy (result (analysed\<lparr>chatInput := ''why''\<rparr>)) \<and>
           get_prop (result (analysed\<lparr>chatInput := ''why''\<rparr>)) ''markdownContent'' = Inr (JStr ''# Report'') \<and>
           chatKey (chat_silent ''1'') = Some ''key'' \<and> chatReply (chat_silent ''1'') = Inr None"
    using analysed_facts by (simp add: blank_def is_space_def good_payload_def chat_silent_def)
  from f [of "[]" "''why''" "analysed\<lparr>chatInput := ''why''\<rparr>" "chat_silent ''1''"] h
  have "chatHistory (last (handleChat (chat_silent ''1'') (analysed\<lparr>chatInput := ''why''\<rparr>))) =
          chatHistory (analysed\<lparr>chatInput := ''why''\<rparr>) @
                [\<lparr> cm_id = userId (chat_silent ''1''), cm_role = User, cm_text = chatInput (analysed\<lparr>chatInput := ''why''\<rparr>),
                   cm_timestamp = userNow (chat_silent ''1'') \<rparr>,
                 \<lparr> cm_id = modelId (chat_silent ''1''), cm_role = Model,
                   cm_text = ''I couldn't generate a response.'', cm_timestamp = modelNow (chat_silent ''1'') \<rparr>]"
    by blast
  then have "transcript (ask (''why'', chat_silent ''1'') analysed) =
     [(User, ''why''), (Model, ''I couldn't generate a response.'')]"
    using analysed_facts by (simp add: ask_def transcript_def)
  with g c f show ?thesis by blast
qed

lemma analysed_shown: "panel_shown analysed"
  using analysed_facts by (simp add: panel_shown_def good_payload_def)

text \<open>
  Claim C8. The send button is disabled while a call is in flight, the Enter key is not:
  a second question submitted with Enter before the first call has settled starts a second
  call, and when the second reply arrives first the model's turns stand in the order of
  arrival, not of the calls. Submitted with the button, the second question is rejected.
\<close>

theorem enter_key_interleaves:
  "transcript (panel_app (panel_run
      [TypeInput ''one'', PressEnter (chat_ok ''1'' ''first''),
       TypeInput ''two'', PressEnter (chat_ok ''2'' ''second''),
       Settle 1, Settle 0] panel0)) =
     [(User, ''one''), (User, ''two''), (Model, ''second''), (Model, ''first'')] \<and>
   transcript (panel_app (panel_run
      [TypeInput ''one'', PressEnter (chat_ok ''1'' ''first''),
       TypeInput ''two'', ClickSend (chat_ok ''2'' ''second''),
       Settle 0] panel0)) =
     [(User, ''one''), (Model, ''first'')]"
  using analysed_facts analysed_shown
  by (simp add: panel0_def start_call_def handleChat_begin_def handleChat_settle_def
        blank_def is_space_def panel_shown_def good_payload_def chatWithDocument_def
        getClient_def chat_ok_def transcript_def Let_def)

text \<open>
  Claim C6, as stated, fails: after a question has been answered, the Clear button sets
  the result to \<^verbatim>\<open>null\<close> and the phase to \<open>IDLE\<close>, and the transcript still
  holds both turns.
\<close>

theorem reset_keeps_transcript_counterexample:
  "transcript (reset (ask (''one'', chat_ok ''1'' ''first'') analysed)) =
     [(User, ''one''), (Model, ''first'')] \<and>
   result (reset (ask (''one'', chat_ok ''1'' ''first'') analysed)) = JNull \<and>
   appState (reset (ask (''one'', chat_ok ''1'' ''first'') analysed)) = IDLE"
  using analysed_facts
  by (simp add: reset_def ask_def handleChat_def handleChat_begin_def handleChat_settle_def
        blank_def is_space_def good_payload_def chatWithDocument_def getClient_def
        chat_ok_def transcript_def Let_def)

lemma processFile_clears_chat:
  assumes "file_size f \<le> 20 * 1024 * 1024" and "t \<in> set (processFile env f s)"
  shows "chatHistory t = [] \<and> (t \<noteq> last (processFile env f s) \<longrightarrow> result t = JNull)"
proof (cases "reader env")
  case ReaderThrows
  with assms show ?thesis by (simp add: processFile_def)
next
  case ReaderFails
  with assms show ?thesis by (simp add: processFile_def)
next
  case (ReaderLoaded url)
  show ?thesis
  proof (cases "snd (analyzeAndConvertPDF (apiKey env) (response env)
                   (nth_opt (split_on CHR '','' url) 1) (file_type f))")
    case (Inl e)
    with ReaderLoaded assms show ?thesis
      by (auto simp: processFile_def reader_onload_def Let_def)
  next
    case (Inr analysis)
    with ReaderLoaded assms show ?thesis
      by (auto simp: processFile_def reader_onload_def Let_def complete_run_frame)
  qed
qed

lemma reader_onload_keeps_chat:
  "t \<in> set (reader_onload env f url s) \<Longrightarrow> chatHistory t = chatHistory s"
  by (cases "snd (analyzeAndConvertPDF (apiKey env) (response env)
                (nth_opt (split_on CHR '','' url) 1) (file_type f))")
     (auto simp: reader_onload_def Let_def complete_run_frame)

text \<open>
  Claim C6, amended. A run that has passed the size check empties the transcript in its
  first step, and the steps of the run themselves add nothing to it: with nothing else
  happening in between, the transcript is empty in every state of the run, and
  \<^verbatim>\<open>reader.onload\<close>, from whatever state it runs, leaves the transcript as it finds
  it. A call of \<^verbatim>\<open>handleChat\<close> made while no result is active returns at its guard
  and changes nothing. The Clear button resets the result and the phase and leaves the
  transcript as it was. (What a call already in flight does when it settles is not part
  of this statement.)
\<close>

theorem transcript_cleared_on_ingestion:
  "(file_size f \<le> 20 * 1024 * 1024 \<longrightarrow>
      (\<forall>t \<in> set (processFile env f s). chatHistory t = [])) \<and>
   (\<forall>t \<in> set (reader_onload env f url s). chatHistory t = chatHistory s) \<and>
   (\<not> truthy (result s) \<longrightarrow> handleChat cenv s = [s]) \<and>
   chatHistory (reset s) = chatHistory s \<and> result (reset s) = JNull \<and>
   appState (reset s) = IDLE"
proof (intro conjI impI ballI)
  fix t
  assume "file_size f \<le> 20 * 1024 * 1024" and "t \<in> set (processFile env f s)"
  then show "chatHistory t = []"
    using processFile_clears_chat by blast
next
  fix t
  assume "t \<in> set (reader_onload env f url s)"
  then show "chatHistory t = chatHistory s"
    by (rule reader_onload_keeps_chat)
next
  assume "\<not> truthy (result s)"
  then show "handleChat cenv s = [s]"
    by (simp add: handleChat_rejected)
qed (simp_all add: reset_def)

theorem transcript_cleared_on_ingestion_witness:
  "file_size pdf_file \<le> 20 * 1024 * 1024 \<and>
   chatHistory (ask (''one'', chat_ok ''1'' ''first'') analysed) \<noteq> [] \<and>
   chatHistory (last (processFile (run_with good_payload) pdf_file
      (ask (''one'', chat_ok ''1'' ''first'') analysed))) = [] \<and>
   \<not> truthy (result (init_app Map.empty)) \<and>
   handleChat (chat_ok ''1'' ''first'') (init_app Map.empty) = [init_app Map.empty]"
proof -
  let ?s = "ask (''one'', chat_ok ''1'' ''first'') analysed"
  have a: "file_size pdf_file \<le> 20 * 1024 * 1024"
    by (simp add: pdf_file_def)
  have b: "chatHistory ?s \<noteq> []"
    using analysed_facts
    by (simp add: ask_def handleChat_def handleChat_begin_def handleChat_settle_def
        blank_def is_space_def good_payload_def chatWithDocument_def getClient_def
        chat_ok_def Let_def)
  have c: "\<not> truthy (result (init_app Map.empty))"
    by (simp add: init_app_def)
  have d: "last (processFile (run_with good_payload) pdf_file ?s)
             \<in> set (processFile (run_with good_payload) pdf_file ?s)"
    by (rule last_in_set) (rule processFile_nonempty)
  from transcript_cleared_on_ingestion [where f = pdf_file and env = "run_with good_payload"
         and s = ?s] a d
  have "chatHistory (last (processFile (run_with good_payload) pdf_file ?s)) = []"
    by blast
  moreover from transcript_cleared_on_ingestion [where s = "init_app Map.empty"
         and cenv = "chat_ok ''1'' ''first''"] c
  have "handleChat (chat_ok ''1'' ''first'') (init_app Map.empty) = [init_app Map.empty]"
    by blast
  ultimately show ?thesis using a b c by (intro conjI)
qed

section \<open>Export\<close>

text \<open>For the format \<^verbatim>\<open>md\<close> the bytes are the markdown content, verbatim.\<close>

lemma export_markdown_verbatim:
  "dl_data (downloadContent content filename Md) = content \<and>
   dl_mime (downloadContent content filename Md) = ''text/plain''"
  by (simp add: downloadContent_def)

text \<open>
  Claim C4. For the format \<^verbatim>\<open>json\<close> the code sets the MIME type
  \<^verbatim>\<open>application/json\<close> and the extension \<^verbatim>\<open>json\<close>, and hands out the markdown
  text unchanged (the \<^verbatim>\<open>doc\<close> branch beside it converts its data). At this input
  the bytes are \<^verbatim>\<open># Report\<close>, the same for results that differ in their other fields:
  they are not JSON, and no decoding gives the result back as the claim requires.
\<close>

theorem export_json_is_markdown_text:
  "dl_data (downloadContent ''# Report'' ''report.docx'' Json) = ''# Report'' \<and>
   dl_mime (downloadContent ''# Report'' ''report.docx'' Json) = ''application/json'' \<and>
   dl_name (downloadContent ''# Report'' ''report.docx'' Json) = ''report.json'' \<and>
   dl_data (downloadContent ''# Report'' ''other.docx'' Json) = ''# Report''"
  by (simp add: downloadContent_def starts_with_def)

end
